theory Spec2Isabelle
  imports Main "HOL-Library.Word"
begin

unbundle bit_operations_syntax

section \<open>An SFTP front end over an object store: the request router and its helpers\<close>

text \<open>
  The development embeds the class \<open>SFTPS3Server\<close> (the server source) and the access
  policy module. Every SFTP request is run to completion before the next one is looked
  at; the store is a deterministic function of the calls made so far, so that an answer
  may change from one call to the next. Logging, idle timers and the \<open>longname\<close> field
  of directory entries (a locale-dependent rendering) are left out. Strings are lists of
  characters; JavaScript's \<open>toLowerCase\<close> is modelled on ASCII letters.
\<close>

subsection \<open>Protocol constants\<close>

datatype sftp_status = OK | EOF | NO_SUCH_FILE | PERMISSION_DENIED | FAILURE
  | BAD_MESSAGE | NO_CONNECTION | CONNECTION_LOST | OP_UNSUPPORTED

definition SFTP_STATUS_CODE :: "sftp_status \<Rightarrow> nat" where
  "SFTP_STATUS_CODE s = (case s of OK \<Rightarrow> 0 | EOF \<Rightarrow> 1 | NO_SUCH_FILE \<Rightarrow> 2
     | PERMISSION_DENIED \<Rightarrow> 3 | FAILURE \<Rightarrow> 4 | BAD_MESSAGE \<Rightarrow> 5 | NO_CONNECTION \<Rightarrow> 6
     | CONNECTION_LOST \<Rightarrow> 7 | OP_UNSUPPORTED \<Rightarrow> 8)"

definition MODE_READ :: "32 word" where "MODE_READ = 0x00000001"
definition MODE_WRITE :: "32 word" where "MODE_WRITE = 0x00000002"
definition MODE_APPEND :: "32 word" where "MODE_APPEND = 0x00000004"
definition MODE_CREATE :: "32 word" where "MODE_CREATE = 0x00000008"
definition MODE_TRUNCATE :: "32 word" where "MODE_TRUNCATE = 0x00000010"
definition MODE_EXCLUDE :: "32 word" where "MODE_EXCLUDE = 0x00000020"

text \<open>\<open>flags & MODE\<close> used as a condition: true when the result is not zero.\<close>

definition has_flag :: "32 word \<Rightarrow> 32 word \<Rightarrow> bool" where
  "has_flag flags m = (if flags AND m = 0 then False else True)"

type_synonym byte = "8 word"

subsection \<open>String primitives of the host language\<close>

definition startsWith :: "string \<Rightarrow> string \<Rightarrow> bool" where
  "startsWith s pre = (take (length pre) s = pre)"

definition endsWith :: "string \<Rightarrow> string \<Rightarrow> bool" where
  "endsWith s suf = (if length suf \<le> length s then drop (length s - length suf) s = suf else False)"

primrec includes_str :: "string \<Rightarrow> string \<Rightarrow> bool" where
  "includes_str [] sub = (sub = [])"
| "includes_str (x # xs) sub = (if startsWith (x # xs) sub then True else includes_str xs sub)"

text \<open>\<open>s.substring(n)\<close> and \<open>s.substring(0, n)\<close>; a negative bound counts as 0, which
  is what truncating subtraction on \<open>nat\<close> gives.\<close>

definition substring_from :: "nat \<Rightarrow> string \<Rightarrow> string" where
  "substring_from n s = drop n s"

definition substring_to :: "nat \<Rightarrow> string \<Rightarrow> string" where
  "substring_to n s = take n s"

text \<open>\<open>s.split(c)\<close>: the empty string splits into one empty part.\<close>

primrec split_str :: "char \<Rightarrow> string \<Rightarrow> string list" where
  "split_str c [] = [[]]"
| "split_str c (x # xs) =
     (if x = c then [] # split_str c xs
      else (case split_str c xs of [] \<Rightarrow> [[x]] | w # ws \<Rightarrow> (x # w) # ws))"

definition lower_char :: "char \<Rightarrow> char" where
  "lower_char c =
     (let n = (of_char c :: nat) in if 65 \<le> n \<and> n \<le> 90 then char_of (n + 32) else c)"

definition toLowerCase :: "string \<Rightarrow> string" where
  "toLowerCase s = map lower_char s"

definition backslash :: char where
  "backslash = CHR 0x5C"

text \<open>The three replacements of \<open>_mapKey\<close>: two backslashes, then a backslash, any
  character but a line break and a backslash, then every backslash that is left; each match
  becomes one slash, scanning from the left without overlap.\<close>

fun replace_2bs :: "string \<Rightarrow> string" where
  "replace_2bs (a # b # xs) =
     (if a = backslash \<and> b = backslash then CHR ''/'' # replace_2bs xs
      else a # replace_2bs (b # xs))"
| "replace_2bs xs = xs"

fun replace_bs_any_bs :: "string \<Rightarrow> string" where
  "replace_bs_any_bs (a # b # c # xs) =
     (if a = backslash \<and> b \<noteq> CHR 0x0A \<and> b \<noteq> CHR 0x0D \<and> c = backslash
      then CHR ''/'' # replace_bs_any_bs xs
      else a # replace_bs_any_bs (b # c # xs))"
| "replace_bs_any_bs xs = xs"

definition replace_bs :: "string \<Rightarrow> string" where
  "replace_bs s = map (\<lambda>c. if c = backslash then CHR ''/'' else c) s"

subsection \<open>\<open>path.normalize\<close> of the POSIX path module\<close>

text \<open>The runtime's library function, written after its documented algorithm: empty and
  \<open>.\<close> segments are dropped, \<open>..\<close> removes the segment before it (and is kept only in a
  relative path that has nothing left to remove), a trailing slash is kept.\<close>

fun normalizeString :: "bool \<Rightarrow> string list \<Rightarrow> string list \<Rightarrow> string list" where
  "normalizeString allowAboveRoot res [] = res"
| "normalizeString allowAboveRoot res (seg # segs) =
     (if seg = [] then normalizeString allowAboveRoot res segs
      else if seg = ''.'' then normalizeString allowAboveRoot res segs
      else if seg = ''..'' then
        (if res = [] then
           (if allowAboveRoot then normalizeString allowAboveRoot [''..''] segs
            else normalizeString allowAboveRoot res segs)
         else if last res = ''..'' then
           (if allowAboveRoot then normalizeString allowAboveRoot (res @ [''..'']) segs
            else normalizeString allowAboveRoot res segs)
         else normalizeString allowAboveRoot (butlast res) segs)
      else normalizeString allowAboveRoot (res @ [seg]) segs)"

fun join_slash :: "string list \<Rightarrow> string" where
  "join_slash [] = []"
| "join_slash [x] = x"
| "join_slash (x # y # ys) = x @ ''/'' @ join_slash (y # ys)"

definition path_normalize :: "string \<Rightarrow> string" where
  "path_normalize p =
     (if p = [] then ''.''
      else
        (let isAbsolute = (hd p = CHR ''/'');
             trailingSeparator = (last p = CHR ''/'');
             q = join_slash (normalizeString (if isAbsolute then False else True) [] (split_str CHR ''/'' p))
         in if q = [] then (if isAbsolute then ''/'' else if trailingSeparator then ''./'' else ''.'')
            else (let q' = (if trailingSeparator then q @ ''/'' else q)
                  in if isAbsolute then ''/'' @ q' else q')))"

subsection \<open>Path mapping\<close>

text \<open>\<open>_mapKey(userPath, filename)\<close>. The branch for \<open>/ledgers\<close> and \<open>/invoices\<close>
  returns the same concatenation as the default branch.\<close>

definition mapKey :: "string \<Rightarrow> string \<Rightarrow> string" where
  "mapKey userPath0 filename =
     (let userPath = (if userPath0 = [] then ''users'' else userPath0);
          p1 = replace_2bs filename;
          p2 = replace_bs_any_bs p1;
          p3 = replace_bs p2;
          p4 = path_normalize p3;
          p5 = replace_bs p4;
          p = (if startsWith p5 ''/'' then p5 else ''/'' @ p5)
      in if p = ''/ledgers'' then
           (if 2 \<le> length (split_str CHR ''/'' userPath) then userPath @ p else userPath @ p)
         else if p = ''/invoices'' then
           (if 2 \<le> length (split_str CHR ''/'' userPath) then userPath @ p else userPath @ p)
         else userPath @ p)"

subsection \<open>Access policy\<close>

text \<open>The policy object: a table of per-user path lists and a default list. The
  repository holds two versions of \<open>isPathAllowed\<close>; they differ in the tables and in
  the branch for the \<open>/ledgers\<close> and \<open>/invoices\<close> aliases.\<close>

definition allowedPaths :: "string \<Rightarrow> string list option" where
  "allowedPaths u = (if u = ''user'' then Some [''/'', ''/user'', ''/ledgers'', ''/invoices''] else None)"

definition defaultPaths :: "string list" where
  "defaultPaths = [''/'', ''/ledgers'', ''/invoices'']"

definition isPathAllowed :: "string \<Rightarrow> string \<Rightarrow> bool" where
  "isPathAllowed username path =
     (let userPaths = (case allowedPaths username of Some ps \<Rightarrow> ps | None \<Rightarrow> defaultPaths);
          normalizedPath = (if startsWith path ''/'' then path else ''/'' @ path)
      in if List.member userPaths normalizedPath then True
         else if list_ex (\<lambda>allowedPath.
                   if startsWith normalizedPath (allowedPath @ ''/'') then True
                   else normalizedPath = allowedPath) userPaths then True
         else if normalizedPath = ''/'' @ username then True
         else if startsWith normalizedPath (''/'' @ username @ ''/'') then True
         else if normalizedPath = ''/ledgers'' then True
         else if normalizedPath = ''/invoices'' then True
         else if startsWith normalizedPath ''/ledgers/'' then True
         else if startsWith normalizedPath ''/invoices/'' then True
         else if normalizedPath = ''/'' then False
         else if startsWith normalizedPath ''/'' then (length (split_str CHR ''/'' normalizedPath) = 2)
         else False)"

definition allowedPaths_config :: "string \<Rightarrow> string list option" where
  "allowedPaths_config u = (if u = ''user'' then Some [''/'', ''/user''] else None)"

definition defaultPaths_config :: "string list" where
  "defaultPaths_config = [''/'']"

definition isPathAllowed_config :: "string \<Rightarrow> string \<Rightarrow> bool" where
  "isPathAllowed_config username path =
     (let userPaths = (case allowedPaths_config username of Some ps \<Rightarrow> ps | None \<Rightarrow> defaultPaths_config);
          normalizedPath = (if startsWith path ''/'' then path else ''/'' @ path)
      in if List.member userPaths normalizedPath then True
         else if list_ex (\<lambda>allowedPath.
                   if startsWith normalizedPath (allowedPath @ ''/'') then True
                   else normalizedPath = allowedPath) userPaths then True
         else if normalizedPath = ''/'' @ username then True
         else if startsWith normalizedPath (''/'' @ username @ ''/'') then True
         else if normalizedPath = ''/'' then False
         else if startsWith normalizedPath ''/'' then (length (split_str CHR ''/'' normalizedPath) = 2)
         else False)"

subsection \<open>The store, the event bus and the client connection\<close>

record s3obj =
  Key :: string
  Size :: nat
  LastModified :: nat
  IsDir :: bool

datatype store_call =
    ListObjectsV2 string
  | GetObject string nat nat
  | PutObject string "byte list" "nat option" "string option"
  | DeleteObject string
  | CopyObject string string
  | HeadObject string

text \<open>\<open>GetObject key first last\<close> carries the range \<open>bytes=first-last\<close>;
  \<open>PutObject key body ContentLength ContentType\<close>; \<open>CopyObject newKey oldKey\<close>.
  A listing's \<open>Contents\<close> and a download's \<open>Body\<close> may be absent.\<close>

datatype store_reply =
    Listed "s3obj list option"
  | Got "byte list list option"
  | Done
  | Failed string

type_synonym store = "store_call list \<Rightarrow> store_call \<Rightarrow> store_reply"

datatype event =
    upload_error string string string
  | file_uploaded string string
  | directory_changed string string string
  | file_downloaded string string
  | file_deleted string string
  | file_renamed string string string
  | directory_creation_blocked string string
  | directory_deletion_blocked string string
  | protected_directory_deletion_blocked string string
  | protected_directory_rename_blocked string string string

record attrs =
  mode :: nat
  uid :: nat
  gid :: nat
  size_a :: nat
  atime :: nat
  mtime :: nat

record dirent =
  filename :: string
  entry_attrs :: attrs

datatype response =
    Status nat sftp_status
  | Handle nat "byte list"
  | Data nat "byte list"
  | Name nat "dirent list"
  | Attrs nat attrs
  | RealName nat string bool
  | Uncaught string

text \<open>\<open>RealName reqid p isDir\<close> is the one-entry name list of REALPATH; \<open>Uncaught\<close> is
  an exception that leaves the handler (a method called on a field the state lacks), in
  which case the client gets no answer.\<close>

record world =
  calls :: "store_call list"
  events :: "event list"
  responses :: "response list"
  lastUploadTime :: nat

definition s3_send :: "store \<Rightarrow> store_call \<Rightarrow> world \<Rightarrow> store_reply \<times> world" where
  "s3_send st c w = (st (calls w) c, w\<lparr>calls := calls w @ [c]\<rparr>)"

definition emit :: "event \<Rightarrow> world \<Rightarrow> world" where
  "emit e w = w\<lparr>events := events w @ [e]\<rparr>"

definition respond :: "response \<Rightarrow> world \<Rightarrow> world" where
  "respond r w = w\<lparr>responses := responses w @ [r]\<rparr>"

record user =
  username :: string
  path :: string

subsection \<open>Authentication\<close>

definition falsy :: "string option \<Rightarrow> bool" where
  "falsy v = (case v of None \<Rightarrow> True | Some s \<Rightarrow> s = [])"

definition authenticateUser :: "store \<Rightarrow> string option \<Rightarrow> string option \<Rightarrow> world \<Rightarrow> bool \<times> world" where
  "authenticateUser st usern password w =
     (if falsy usern then (False, w)
      else if falsy password then (False, w)
      else
        (let authKey = ''auth/'' @ the usern @ ''_'' @ the password;
             (r, w') = s3_send st (HeadObject authKey) w
         in (case r of Failed e \<Rightarrow> (False, w') | _ \<Rightarrow> (True, w'))))"

subsection \<open>Requests that never reach the store: MKDIR and RMDIR\<close>

definition on_MKDIR :: "user \<Rightarrow> nat \<Rightarrow> string \<Rightarrow> world \<Rightarrow> world" where
  "on_MKDIR u reqid dirPath w =
     emit (directory_creation_blocked (username u) dirPath)
       (respond (Status reqid PERMISSION_DENIED) w)"

definition on_RMDIR :: "user \<Rightarrow> nat \<Rightarrow> string \<Rightarrow> world \<Rightarrow> world" where
  "on_RMDIR u reqid dirPath w =
     emit (directory_deletion_blocked (username u) dirPath)
       (respond (Status reqid PERMISSION_DENIED) w)"

subsection \<open>Per-session handle tables\<close>

text \<open>The two shapes of an open-file state share one record: \<open>size_f\<close> is set by an
  open for reading, \<open>stream\<close> (the chunks pushed into the pass-through stream, in order)
  by an open for writing; \<open>ended\<close> says that the stream has been ended.\<close>

record file_state =
  flags :: "32 word"
  filename_f :: string
  fullname :: string
  size_f :: "nat option"
  stream :: "byte list list option"
  ended :: bool
  uploadComplete :: bool
  uploadError :: "string option"
  read :: bool

record dir_state =
  dir_fullname :: string
  listings :: "s3obj list"
  dir_user :: "user option"
  dir_read :: bool

record session =
  openFiles :: "nat \<rightharpoonup> file_state"
  openDirs :: "nat \<rightharpoonup> dir_state"
  handleCount :: nat

text \<open>Handles on the wire: four bytes, most significant first. A shift by eight bits
  is a division by 256.\<close>

definition writeUInt32BE :: "nat \<Rightarrow> byte list" where
  "writeUInt32BE n =
     [of_nat (n div 256 div 256 div 256 mod 256), of_nat (n div 256 div 256 mod 256),
      of_nat (n div 256 mod 256), of_nat (n mod 256)]"

definition readUInt32BE :: "byte list \<Rightarrow> nat" where
  "readUInt32BE h =
     (case h of [a, b, c, d] \<Rightarrow> ((unat a * 256 + unat b) * 256 + unat c) * 256 + unat d
      | _ \<Rightarrow> 0)"

record server =
  accessControl :: "string \<Rightarrow> string \<Rightarrow> bool"
  s3Client :: store
  userBasePath :: string
  defaultSubdirectories :: "string list"
  createDefaultSubdirs :: bool

subsection \<open>Download pipeline\<close>

definition readFileFromS3 :: "server \<Rightarrow> nat \<Rightarrow> string \<Rightarrow> nat \<Rightarrow> nat \<Rightarrow> world \<Rightarrow> world" where
  "readFileFromS3 srv reqid fullnm offset len w =
     (let (r, w') = s3_send (s3Client srv) (GetObject fullnm offset (offset + len - 1)) w
      in (case r of
            Got (Some chunks) \<Rightarrow>
              (let buffer = concat chunks
               in if length buffer = 0 then respond (Status reqid FAILURE) w'
                  else respond (Data reqid buffer) w')
          | _ \<Rightarrow> respond (Status reqid FAILURE) w'))"

text \<open>Comparisons against the recorded size; a state without one (\<open>undefined\<close>) makes
  every comparison false.\<close>

definition on_READ :: "server \<Rightarrow> nat \<Rightarrow> byte list \<Rightarrow> nat \<Rightarrow> nat \<Rightarrow> session \<times> world \<Rightarrow> session \<times> world" where
  "on_READ srv reqid handle offset len0 sw =
     (let s = fst sw; w = snd sw
      in if length handle \<noteq> 4 then (s, respond (Status reqid FAILURE) w)
         else
           (let handleId = readUInt32BE handle
            in (case openFiles s handleId of
                  None \<Rightarrow> (s, respond (Status reqid FAILURE) w)
                | Some state \<Rightarrow>
                    if has_flag (flags state) MODE_READ then
                      (if read state then (s, respond (Status reqid EOF) w)
                       else if (case size_f state of None \<Rightarrow> False | Some sz \<Rightarrow> sz \<le> offset)
                         then (s, respond (Status reqid EOF) w)
                       else
                         (let len = (case size_f state of None \<Rightarrow> len0
                                     | Some sz \<Rightarrow> if sz < offset + len0 then sz - offset else len0)
                          in if len = 0 then (s, respond (Status reqid EOF) w)
                             else
                               (let state' = (if (case size_f state of None \<Rightarrow> False
                                                  | Some sz \<Rightarrow> sz \<le> offset + len)
                                              then state\<lparr>read := True\<rparr> else state);
                                    s' = s\<lparr>openFiles := (openFiles s)(handleId \<mapsto> state')\<rparr>
                                in (s', readFileFromS3 srv reqid (fullname state') offset len w))))
                    else (s, respond (Status reqid FAILURE) w))))"

subsection \<open>Upload pipeline\<close>

definition set_uploadError :: "nat \<Rightarrow> string \<Rightarrow> session \<Rightarrow> session" where
  "set_uploadError handleId msg s =
     (case openFiles s handleId of
        None \<Rightarrow> s
      | Some state \<Rightarrow> s\<lparr>openFiles := (openFiles s)(handleId \<mapsto> state\<lparr>uploadError := Some msg\<rparr>)\<rparr>)"

text \<open>The second check of the upload: a key under a \<open>ledgers\<close> or \<open>invoices\<close> folder
  that does not end in \<open>.pdf\<close>, letter case aside.\<close>

definition non_pdf_in_protected :: "string \<Rightarrow> bool" where
  "non_pdf_in_protected fullnm =
     (let lowerFullname = toLowerCase fullnm
      in if (if includes_str lowerFullname ''/ledgers/'' then True
             else includes_str lowerFullname ''/invoices/'')
         then (if endsWith lowerFullname ''.pdf'' then False else True)
         else False)"

text \<open>The listener of the stream's \<open>end\<close> event in \<open>_uploadToS3\<close>, run on the chunks the
  stream has delivered. The \<open>directory-changed\<close> event carries the key; its two path
  fields are the key's directory and base name.\<close>

definition uploadToS3 :: "server \<Rightarrow> nat \<Rightarrow> byte list list \<Rightarrow> string \<Rightarrow> nat \<Rightarrow> user \<Rightarrow> session \<times> world \<Rightarrow> session \<times> world" where
  "uploadToS3 srv now chunks fullnm handleId u sw =
     (let s = fst sw; w = snd sw; buffer = concat chunks
      in if length buffer = 0 then
           (set_uploadError handleId ''Empty files are not allowed'' s,
            emit (upload_error fullnm ''Empty files are not allowed'' (username u)) w)
         else if non_pdf_in_protected fullnm then
           (set_uploadError handleId ''Only PDF files are allowed in ledgers and invoices directories'' s,
            emit (upload_error fullnm ''Only PDF files are allowed in ledgers and invoices directories''
                    (username u)) w)
         else
           (let (r, w') = s3_send (s3Client srv)
                            (PutObject fullnm buffer (Some (length buffer)) None) w
            in (case r of
                  Failed e \<Rightarrow> (set_uploadError handleId e s, emit (upload_error fullnm e (username u)) w')
                | _ \<Rightarrow>
                  (case openFiles s handleId of
                     None \<Rightarrow> (s, w')
                   | Some state \<Rightarrow>
                       (s\<lparr>openFiles := (openFiles s)(handleId \<mapsto> state\<lparr>uploadComplete := True\<rparr>)\<rparr>,
                        emit (directory_changed fullnm (username u) ''upload'')
                          (emit (file_uploaded fullnm (username u))
                             (w'\<lparr>lastUploadTime := now\<rparr>)))))))"

definition on_WRITE :: "nat \<Rightarrow> byte list \<Rightarrow> nat \<Rightarrow> byte list \<Rightarrow> session \<times> world \<Rightarrow> session \<times> world" where
  "on_WRITE reqid handle offset data sw =
     (let s = fst sw; w = snd sw
      in if length handle \<noteq> 4 then (s, respond (Status reqid FAILURE) w)
         else
           (let handleId = readUInt32BE handle
            in (case openFiles s handleId of
                  None \<Rightarrow> (s, respond (Status reqid FAILURE) w)
                | Some state \<Rightarrow>
                    if has_flag (flags state) MODE_WRITE then
                      (case stream state of
                         None \<Rightarrow> (s, respond (Uncaught ''TypeError'') w)
                       | Some chunks \<Rightarrow>
                           if ended state then (s, respond (Status reqid FAILURE) w)
                           else (s\<lparr>openFiles := (openFiles s)
                                     (handleId \<mapsto> state\<lparr>stream := Some (chunks @ [data])\<rparr>)\<rparr>,
                                 respond (Status reqid OK) w))
                    else (s, respond (Status reqid FAILURE) w))))"

text \<open>The poll \<open>checkUploadStatus\<close>, re-armed every 100 ms: the first argument counts
  the timer ticks that are still to come; with none left no answer has been sent.\<close>

fun checkUploadStatus :: "nat \<Rightarrow> nat \<Rightarrow> nat \<Rightarrow> session \<times> world \<Rightarrow> session \<times> world" where
  "checkUploadStatus 0 reqid handleId sw = sw"
| "checkUploadStatus (Suc ticks) reqid handleId sw =
     (case openFiles (fst sw) handleId of
        None \<Rightarrow> sw
      | Some currentState \<Rightarrow>
          if uploadComplete currentState then
            ((fst sw)\<lparr>openFiles := (openFiles (fst sw))(handleId := None)\<rparr>,
             respond (Status reqid OK) (snd sw))
          else if uploadError currentState = None then checkUploadStatus ticks reqid handleId sw
          else
            ((fst sw)\<lparr>openFiles := (openFiles (fst sw))(handleId := None)\<rparr>,
             respond (Status reqid FAILURE) (snd sw)))"

text \<open>\<open>_closeFile\<close>. Ending the stream schedules the \<open>end\<close> listener, which runs after
  the synchronous part of the handler and before the first tick of the poll; a stream
  that was ended before does not run it again.\<close>

definition closeFile :: "server \<Rightarrow> nat \<Rightarrow> nat \<Rightarrow> user \<Rightarrow> nat \<Rightarrow> file_state \<Rightarrow> nat \<Rightarrow> session \<times> world \<Rightarrow> session \<times> world" where
  "closeFile srv now ticks u reqid state handleId sw =
     (let s = fst sw; w = snd sw
      in if has_flag (flags state) MODE_WRITE then
           (case stream state of
              None \<Rightarrow> (s, respond (Uncaught ''TypeError'') w)
            | Some chunks \<Rightarrow>
                (let s1 = s\<lparr>openFiles := (openFiles s)(handleId \<mapsto> state\<lparr>ended := True\<rparr>)\<rparr>;
                     on_end = (\<lambda>sw'. if ended state then sw'
                                      else uploadToS3 srv now chunks (fullname state) handleId u sw')
                 in if uploadComplete state then
                      on_end (s1\<lparr>openFiles := (openFiles s1)(handleId := None)\<rparr>,
                              respond (Status reqid OK) w)
                    else if uploadError state = None then
                      checkUploadStatus ticks reqid handleId (on_end (s1, w))
                    else
                      on_end (s1\<lparr>openFiles := (openFiles s1)(handleId := None)\<rparr>,
                              respond (Status reqid FAILURE) w)))
         else
           (s\<lparr>openFiles := (openFiles s)(handleId := None)\<rparr>,
            respond (Status reqid OK) (emit (file_downloaded (fullname state) (username u)) w)))"

definition on_CLOSE :: "server \<Rightarrow> nat \<Rightarrow> nat \<Rightarrow> user \<Rightarrow> nat \<Rightarrow> byte list \<Rightarrow> session \<times> world \<Rightarrow> session \<times> world" where
  "on_CLOSE srv now ticks u reqid handle sw =
     (let s = fst sw; w = snd sw
      in if length handle \<noteq> 4 then (s, respond (Status reqid FAILURE) w)
         else
           (let handleId = readUInt32BE handle
            in (case openFiles s handleId of
                  Some fileState \<Rightarrow> closeFile srv now ticks u reqid fileState handleId sw
                | None \<Rightarrow>
                    (case openDirs s handleId of
                       None \<Rightarrow> (s, respond (Status reqid FAILURE) w)
                     | Some dirState \<Rightarrow>
                         (s\<lparr>openDirs := (openDirs s)(handleId := None)\<rparr>,
                          respond (Status reqid OK) w)))))"

subsection \<open>Opening files\<close>

definition isFileTypeAllowed :: "string \<Rightarrow> bool" where
  "isFileTypeAllowed fname =
     (let lowerFilename = toLowerCase fname;
          underProtected = (if startsWith lowerFilename ''/ledgers/'' then True
                            else if startsWith lowerFilename ''/invoices/'' then True
                            else if lowerFilename = ''/ledgers'' then True
                            else lowerFilename = ''/invoices'')
      in if underProtected then
           (if endsWith lowerFilename ''.pdf'' then
              (if lowerFilename = ''/ledgers'' then False
               else if lowerFilename = ''/invoices'' then False
               else if lowerFilename = ''/ledgers/'' then False
               else if lowerFilename = ''/invoices/'' then False
               else if endsWith lowerFilename ''/ledgers/'' then False
               else if endsWith lowerFilename ''/invoices/'' then False
               else True)
            else False)
         else True)"

text \<open>\<open>_checkIfDirectory\<close>: any failure of the listing, an absent \<open>Contents\<close> included,
  is caught and answered \<open>false\<close>.\<close>

definition checkIfDirectory :: "server \<Rightarrow> string \<Rightarrow> world \<Rightarrow> bool \<times> world" where
  "checkIfDirectory srv fullnm w =
     (let (r, w') = s3_send (s3Client srv) (ListObjectsV2 fullnm) w
      in (case r of
            Listed (Some contents) \<Rightarrow>
              (if list_ex (\<lambda>c. Key c = fullnm @ ''/.directory'') contents then (True, w')
               else if list_ex (\<lambda>c. Key c = fullnm @ ''/.dir'') contents then (True, w')
               else if list_ex (\<lambda>c. if Key c = fullnm then False
                                      else startsWith (Key c) (fullnm @ ''/'')) contents then (True, w')
               else (False, w'))
          | _ \<Rightarrow> (False, w')))"

definition handleFileOpenRead :: "server \<Rightarrow> nat \<Rightarrow> string \<Rightarrow> string \<Rightarrow> 32 word \<Rightarrow> nat \<Rightarrow> session \<times> world \<Rightarrow> session \<times> world" where
  "handleFileOpenRead srv reqid fname fullnm flgs handleId sw =
     (let s = fst sw; (r, w') = s3_send (s3Client srv) (ListObjectsV2 fullnm) (snd sw)
      in (case r of
            Listed (Some contents) \<Rightarrow>
              (case find (\<lambda>c. Key c = fullnm) contents of
                 None \<Rightarrow> (s, respond (Status reqid NO_SUCH_FILE) w')
               | Some file \<Rightarrow>
                   (s\<lparr>openFiles := (openFiles s)(handleId \<mapsto>
                        \<lparr>flags = flgs, filename_f = fname, fullname = fullnm, size_f = Some (Size file),
                         stream = None, ended = False, uploadComplete = False, uploadError = None,
                         read = False\<rparr>)\<rparr>,
                    respond (Handle reqid (writeUInt32BE handleId)) w'))
          | _ \<Rightarrow> (s, respond (Status reqid FAILURE) w')))"

definition handleFileOpenWrite :: "nat \<Rightarrow> string \<Rightarrow> string \<Rightarrow> 32 word \<Rightarrow> nat \<Rightarrow> session \<times> world \<Rightarrow> session \<times> world" where
  "handleFileOpenWrite reqid fname fullnm flgs handleId sw =
     ((fst sw)\<lparr>openFiles := (openFiles (fst sw))(handleId \<mapsto>
          \<lparr>flags = flgs, filename_f = fname, fullname = fullnm, size_f = None,
           stream = Some [], ended = False, uploadComplete = False, uploadError = None,
           read = False\<rparr>)\<rparr>,
      respond (Handle reqid (writeUInt32BE handleId)) (snd sw))"

definition on_OPEN :: "server \<Rightarrow> user \<Rightarrow> nat \<Rightarrow> string \<Rightarrow> 32 word \<Rightarrow> session \<times> world \<Rightarrow> session \<times> world" where
  "on_OPEN srv u reqid filename0 flgs sw =
     (let s = fst sw; w = snd sw;
          fname = (if endsWith filename0 [backslash] then substring_to (length filename0 - 1) filename0
                   else if endsWith filename0 ''/'' then substring_to (length filename0 - 1) filename0
                   else filename0)
      in if accessControl srv (username u) fname then
           (if has_flag flgs MODE_WRITE \<and> (if isFileTypeAllowed fname then False else True)
            then (s, respond (Status reqid PERMISSION_DENIED) w)
            else
              (let fullnm = mapKey (path u) fname;
                   (isDirectory, w1) = checkIfDirectory srv fullnm w
               in if isDirectory then (s, respond (Status reqid NO_SUCH_FILE) w1)
                  else if has_flag flgs MODE_READ then
                    handleFileOpenRead srv reqid fname fullnm flgs (handleCount s)
                      (s\<lparr>handleCount := handleCount s + 1\<rparr>, w1)
                  else if has_flag flgs MODE_WRITE then
                    handleFileOpenWrite reqid fname fullnm flgs (handleCount s)
                      (s\<lparr>handleCount := handleCount s + 1\<rparr>, w1)
                  else (s, respond (Status reqid OP_UNSUPPORTED) w1)))
         else (s, respond (Status reqid PERMISSION_DENIED) w))"

subsection \<open>Directories\<close>

definition string_bytes :: "string \<Rightarrow> byte list" where
  "string_bytes s = map (\<lambda>c. of_nat (of_char c)) s"

text \<open>\<open>_createDefaultSubdirectories\<close>: the first failed PUT ends the loop.\<close>

fun createDefaultSubdirectories :: "server \<Rightarrow> string \<Rightarrow> string list \<Rightarrow> world \<Rightarrow> world" where
  "createDefaultSubdirectories srv usern [] w = w"
| "createDefaultSubdirectories srv usern (dirName # rest) w =
     (let subDirKey = userBasePath srv @ ''/'' @ usern @ ''/'' @ dirName @ ''/.directory'';
          (r, w') = s3_send (s3Client srv)
                      (PutObject subDirKey (string_bytes (''Directory marker for '' @ dirName @ '' folder''))
                         None (Some ''application/x-directory'')) w
      in (case r of Failed e \<Rightarrow> w' | _ \<Rightarrow> createDefaultSubdirectories srv usern rest w'))"

definition ensureUserDirectory :: "server \<Rightarrow> string \<Rightarrow> world \<Rightarrow> world" where
  "ensureUserDirectory srv usern w =
     (if createDefaultSubdirs srv then createDefaultSubdirectories srv usern (defaultSubdirectories srv) w
      else w)"

text \<open>The callback of the filter in \<open>_processDirectoryListings\<close>, for the entry \<open>c\<close> of the
  array \<open>contents\<close>: \<open>None\<close> when the entry is dropped, otherwise the entry as the callback
  leaves it (it rewrites \<open>Key\<close> and sets \<open>IsDir\<close> in place).\<close>

definition classify :: "string \<Rightarrow> s3obj list \<Rightarrow> s3obj \<Rightarrow> s3obj option" where
  "classify fullnm contents c =
     (let f0 = substring_from (length fullnm) (Key c);
          f = (if startsWith f0 ''/'' then f0 else ''/'' @ f0)
      in if f = ''/.dir'' then None
         else
           (let parts = split_str CHR ''/'' f
            in if hd parts = [] then
                 (if length parts = 3 \<and> parts ! 2 = ''.directory'' then
                    (if parts ! 1 = [] then None
                     else Some (c\<lparr>Key := substring_to (length (Key c) - 11) (Key c), IsDir := True\<rparr>))
                  else if length parts = 2 then Some c
                  else
                    (let dirKey = fullnm @ ''/'' @ parts ! 1;
                         hasChildren = (if 2 < length parts then
                                          list_ex (\<lambda>other. if Key other = Key c then False
                                                            else startsWith (Key other) (dirKey @ ''/''))
                                            contents
                                        else False)
                     in if hasChildren then Some (c\<lparr>IsDir := True, Key := dirKey\<rparr>)
                        else if list_ex (\<lambda>other. Key other = Key c @ ''/.directory'') contents
                          then Some (c\<lparr>IsDir := True\<rparr>)
                        else None))
               else None))"

text \<open>The filter itself: the entries before the current one are seen as earlier calls of
  the callback left them.\<close>

fun filter_listings :: "string \<Rightarrow> s3obj list \<Rightarrow> s3obj list \<Rightarrow> s3obj list" where
  "filter_listings fullnm earlier [] = []"
| "filter_listings fullnm earlier (c # rest) =
     (case classify fullnm (earlier @ c # rest) c of
        None \<Rightarrow> filter_listings fullnm (earlier @ [c]) rest
      | Some c' \<Rightarrow> c' # filter_listings fullnm (earlier @ [c']) rest)"

definition processDirectoryListings :: "s3obj list \<Rightarrow> string \<Rightarrow> s3obj list" where
  "processDirectoryListings contents fullnm = filter_listings fullnm [] contents"

definition openDirectory :: "server \<Rightarrow> nat \<Rightarrow> nat \<Rightarrow> string \<Rightarrow> bool \<Rightarrow> nat \<Rightarrow> user \<Rightarrow> session \<times> world \<Rightarrow> session \<times> world" where
  "openDirectory srv now reqid fullnm isRoot handleId u sw =
     (let s = fst sw; (r, w1) = s3_send (s3Client srv) (ListObjectsV2 fullnm) (snd sw)
      in (case r of
            Failed e \<Rightarrow> (s, respond (Status reqid FAILURE) w1)
          | _ \<Rightarrow>
            (let contents0 = (case r of Listed (Some cs) \<Rightarrow> cs | _ \<Rightarrow> []);
                 w2 = (if isRoot \<and> contents0 = [] then ensureUserDirectory srv (username u) w1 else w1);
                 finish = (\<lambda>contents w'.
                    if contents = [] \<and> (if isRoot then False else True)
                    then (s, respond (Status reqid NO_SUCH_FILE) w')
                    else (s\<lparr>openDirs := (openDirs s)(handleId \<mapsto>
                              \<lparr>dir_fullname = fullnm,
                               listings = processDirectoryListings contents fullnm,
                               dir_user = Some u, dir_read = False\<rparr>)\<rparr>,
                          respond (Handle reqid (writeUInt32BE handleId)) w'))
             in if now - lastUploadTime w2 < 10000 then
                  (let (r2, w3) = s3_send (s3Client srv) (ListObjectsV2 fullnm) w2
                   in (case r2 of
                         Failed e \<Rightarrow> (s, respond (Status reqid FAILURE) w3)
                       | Listed (Some cs) \<Rightarrow> finish cs w3
                       | _ \<Rightarrow> finish [] w3))
                else finish contents0 w2)))"

definition on_OPENDIR :: "server \<Rightarrow> nat \<Rightarrow> user \<Rightarrow> nat \<Rightarrow> string \<Rightarrow> session \<times> world \<Rightarrow> session \<times> world" where
  "on_OPENDIR srv now u reqid dirPath sw =
     (if accessControl srv (username u) dirPath then
        openDirectory srv now reqid (mapKey (path u) dirPath) (dirPath = ''/'') (handleCount (fst sw)) u
          ((fst sw)\<lparr>handleCount := handleCount (fst sw) + 1\<rparr>, snd sw)
      else (fst sw, respond (Status reqid PERMISSION_DENIED) (snd sw)))"

text \<open>\<open>_listDirectoryContents\<close>: one entry per listing, then the first entry of each
  name is kept; for a state whose \<open>fullname\<close> is the empty string the entries are replaced
  by three synthetic ones. Modes: \<open>0o755 = 493\<close>, \<open>0o644 = 420\<close>.\<close>

definition entry_of :: "string \<Rightarrow> s3obj \<Rightarrow> dirent" where
  "entry_of fullnm l =
     (let f0 = substring_from (length fullnm) (Key l);
          f1 = (if startsWith f0 ''/'' then substring_from 1 f0 else f0);
          f2 = (if endsWith f1 ''/'' then substring_to (length f1 - 1) f1 else f1)
      in \<lparr>filename = f2,
          entry_attrs = \<lparr>mode = (if IsDir l then 493 else 420), uid = 0, gid = 0,
                         size_a = (if IsDir l then 0 else Size l),
                         atime = LastModified l, mtime = LastModified l\<rparr>\<rparr>)"

fun dedupe :: "string list \<Rightarrow> dirent list \<Rightarrow> dirent list" where
  "dedupe seen [] = []"
| "dedupe seen (e # es) =
     (if List.member seen (filename e) then dedupe seen es
      else e # dedupe (filename e # seen) es)"

definition synthetic_entry :: "nat \<Rightarrow> string \<Rightarrow> dirent" where
  "synthetic_entry now nm =
     \<lparr>filename = nm,
      entry_attrs = \<lparr>mode = 493, uid = 0, gid = 0, size_a = 0, atime = now, mtime = now\<rparr>\<rparr>"

definition listDirectoryContents :: "nat \<Rightarrow> nat \<Rightarrow> dir_state \<Rightarrow> world \<Rightarrow> world" where
  "listDirectoryContents now reqid state w =
     (let entries = dedupe [] (map (entry_of (dir_fullname state)) (listings state))
      in if dir_fullname state = [] then
           (let usern = (case dir_user state of Some u \<Rightarrow> username u | None \<Rightarrow> ''user'')
            in respond (Name reqid [synthetic_entry now usern, synthetic_entry now ''ledgers'',
                                    synthetic_entry now ''invoices'']) w)
         else respond (Name reqid entries) w)"

definition on_READDIR :: "nat \<Rightarrow> nat \<Rightarrow> byte list \<Rightarrow> session \<times> world \<Rightarrow> session \<times> world" where
  "on_READDIR now reqid handle sw =
     (let s = fst sw; w = snd sw
      in if length handle \<noteq> 4 then (s, respond (Status reqid FAILURE) w)
         else
           (let handleId = readUInt32BE handle
            in (case openDirs s handleId of
                  None \<Rightarrow> (s, respond (Status reqid FAILURE) w)
                | Some state \<Rightarrow>
                    if dir_read state then (s, respond (Status reqid EOF) w)
                    else (s\<lparr>openDirs := (openDirs s)(handleId \<mapsto> state\<lparr>dir_read := True\<rparr>)\<rparr>,
                          listDirectoryContents now reqid (state\<lparr>dir_read := True\<rparr>) w))))"

subsection \<open>Removing and renaming\<close>

text \<open>The guard that opens the REMOVE handler and, on the old path, the RENAME handler.
  The two user-scoped paths are string literals.\<close>

definition protected_structure :: "string \<Rightarrow> bool" where
  "protected_structure p =
     (if p = ''/ledgers'' then True
      else if p = ''/invoices'' then True
      else if p = ''/user/ledgers'' then True
      else if p = ''/user/invoices'' then True
      else if endsWith p ''/ledgers/.directory'' then True
      else if endsWith p ''/invoices/.directory'' then True
      else if endsWith p ''/user/ledgers/.directory'' then True
      else endsWith p ''/user/invoices/.directory'')"

definition deleteFileFromS3 :: "server \<Rightarrow> nat \<Rightarrow> string \<Rightarrow> user \<Rightarrow> world \<Rightarrow> world" where
  "deleteFileFromS3 srv reqid fullnm u w =
     (let (r, w') = s3_send (s3Client srv) (DeleteObject fullnm) w
      in (case r of
            Failed e \<Rightarrow> respond (Status reqid FAILURE) w'
          | _ \<Rightarrow> respond (Status reqid OK) (emit (file_deleted fullnm (username u)) w')))"

definition on_REMOVE :: "server \<Rightarrow> user \<Rightarrow> nat \<Rightarrow> string \<Rightarrow> world \<Rightarrow> world" where
  "on_REMOVE srv u reqid filePath w =
     (if protected_structure filePath then
        emit (protected_directory_deletion_blocked (username u) filePath)
          (respond (Status reqid PERMISSION_DENIED) w)
      else if accessControl srv (username u) filePath then
        deleteFileFromS3 srv reqid (mapKey (path u) filePath) u w
      else respond (Status reqid PERMISSION_DENIED) w)"

definition renameInS3 :: "server \<Rightarrow> nat \<Rightarrow> string \<Rightarrow> string \<Rightarrow> user \<Rightarrow> world \<Rightarrow> world" where
  "renameInS3 srv reqid fullnameOld fullnameNew u w =
     (let (r1, w1) = s3_send (s3Client srv) (CopyObject fullnameNew fullnameOld) w
      in (case r1 of
            Failed e \<Rightarrow> respond (Status reqid FAILURE) w1
          | _ \<Rightarrow>
            (let (r2, w2) = s3_send (s3Client srv) (DeleteObject fullnameOld) w1
             in (case r2 of
                   Failed e \<Rightarrow> respond (Status reqid FAILURE) w2
                 | _ \<Rightarrow> respond (Status reqid OK)
                          (emit (file_renamed fullnameNew fullnameOld (username u)) w2)))))"

definition on_RENAME :: "server \<Rightarrow> user \<Rightarrow> nat \<Rightarrow> string \<Rightarrow> string \<Rightarrow> world \<Rightarrow> world" where
  "on_RENAME srv u reqid oldPath newPath w =
     (if protected_structure oldPath then
        emit (protected_directory_rename_blocked (username u) oldPath newPath)
          (respond (Status reqid PERMISSION_DENIED) w)
      else renameInS3 srv reqid (mapKey (path u) oldPath) (mapKey (path u) newPath) u w)"

subsection \<open>STAT, LSTAT and REALPATH\<close>

definition dir_attrs :: "nat \<Rightarrow> attrs" where
  "dir_attrs t = \<lparr>mode = 493, uid = 0, gid = 0, size_a = 0, atime = t, mtime = t\<rparr>"

definition getFileStats :: "server \<Rightarrow> nat \<Rightarrow> nat \<Rightarrow> string \<Rightarrow> user \<Rightarrow> world \<Rightarrow> world" where
  "getFileStats srv now reqid filePath u w =
     (let fullnm = mapKey (path u) filePath;
          (r, w') = s3_send (s3Client srv) (ListObjectsV2 fullnm) w
      in (case r of
            Listed (Some contents) \<Rightarrow>
              (case find (\<lambda>c. Key c = fullnm) contents of
                 Some exactMatch \<Rightarrow>
                   respond (Attrs reqid \<lparr>mode = 420, uid = 0, gid = 0, size_a = Size exactMatch,
                              atime = LastModified exactMatch, mtime = LastModified exactMatch\<rparr>) w'
               | None \<Rightarrow>
                 (case find (\<lambda>c. Key c = fullnm @ ''/.directory'') contents of
                    Some directoryMatch \<Rightarrow> respond (Attrs reqid (dir_attrs (LastModified directoryMatch))) w'
                  | None \<Rightarrow>
                    (case find (\<lambda>c. Key c = fullnm @ ''/.dir'') contents of
                       Some legacyDirMatch \<Rightarrow> respond (Attrs reqid (dir_attrs (LastModified legacyDirMatch))) w'
                     | None \<Rightarrow>
                         if list_ex (\<lambda>c. if Key c = fullnm then False
                                         else startsWith (Key c) (fullnm @ ''/'')) contents
                         then respond (Attrs reqid (dir_attrs now)) w'
                         else respond (Status reqid NO_SUCH_FILE) w')))
          | _ \<Rightarrow> respond (Status reqid FAILURE) w'))"

definition on_STAT :: "server \<Rightarrow> nat \<Rightarrow> user \<Rightarrow> nat \<Rightarrow> string \<Rightarrow> world \<Rightarrow> world" where
  "on_STAT srv now u reqid filePath w =
     (if accessControl srv (username u) filePath then getFileStats srv now reqid filePath u w
      else respond (Status reqid PERMISSION_DENIED) w)"

definition on_LSTAT :: "server \<Rightarrow> nat \<Rightarrow> user \<Rightarrow> nat \<Rightarrow> string \<Rightarrow> world \<Rightarrow> world" where
  "on_LSTAT srv now u reqid filePath w =
     (if accessControl srv (username u) filePath then getFileStats srv now reqid filePath u w
      else respond (Status reqid PERMISSION_DENIED) w)"

definition resolvePath :: "server \<Rightarrow> nat \<Rightarrow> string \<Rightarrow> user \<Rightarrow> world \<Rightarrow> world" where
  "resolvePath srv reqid filePath0 u w =
     (let filePath = (if filePath0 = ''.'' then ''/'' else filePath0);
          p5 = replace_bs (path_normalize (replace_bs (replace_bs_any_bs (replace_2bs filePath))));
          p = (if startsWith p5 ''/'' then p5 else ''/'' @ p5);
          fullnm = mapKey (path u) filePath;
          (r, w') = s3_send (s3Client srv) (ListObjectsV2 fullnm) w
      in (case r of
            Failed e \<Rightarrow> respond (Status reqid FAILURE) w'
          | _ \<Rightarrow>
            (let contents = (case r of Listed (Some cs) \<Rightarrow> cs | _ \<Rightarrow> [])
             in (case find (\<lambda>c. if Key c = fullnm then True
                                 else if Key c = fullnm @ ''/.directory'' then True
                                 else Key c = fullnm @ ''/.dir'') contents of
                   Some realObj \<Rightarrow>
                     respond (RealName reqid p
                                (if endsWith (Key realObj) ''/.directory'' then True
                                 else if endsWith (Key realObj) ''/.dir'' then True
                                 else IsDir realObj)) w'
                 | None \<Rightarrow>
                     if p = ''/'' then respond (RealName reqid ''/'' True) w'
                     else if p = ''/.'' then respond (RealName reqid ''/'' True) w'
                     else if p = ''.'' then respond (RealName reqid ''/'' True) w'
                     else respond (Status reqid NO_SUCH_FILE) w'))))"

subsection \<open>The request router\<close>

datatype request =
    OPEN nat string "32 word"
  | READ nat "byte list" nat nat
  | WRITE nat "byte list" nat "byte list"
  | OPENDIR nat string
  | READDIR nat "byte list"
  | CLOSE nat "byte list"
  | REMOVE nat string
  | MKDIR nat string
  | RMDIR nat string
  | RENAME nat string string
  | STAT nat string
  | LSTAT nat string
  | REALPATH nat string

text \<open>One request of the session of user \<open>u\<close>, at clock reading \<open>now\<close>; \<open>ticks\<close> bounds
  the polls a CLOSE may wait for.\<close>

definition handle_request :: "server \<Rightarrow> nat \<Rightarrow> nat \<Rightarrow> user \<Rightarrow> request \<Rightarrow> session \<times> world \<Rightarrow> session \<times> world" where
  "handle_request srv now ticks u req sw =
     (case req of
        OPEN reqid fname flgs \<Rightarrow> on_OPEN srv u reqid fname flgs sw
      | READ reqid h offset len \<Rightarrow> on_READ srv reqid h offset len sw
      | WRITE reqid h offset data \<Rightarrow> on_WRITE reqid h offset data sw
      | OPENDIR reqid p \<Rightarrow> on_OPENDIR srv now u reqid p sw
      | READDIR reqid h \<Rightarrow> on_READDIR now reqid h sw
      | CLOSE reqid h \<Rightarrow> on_CLOSE srv now ticks u reqid h sw
      | REMOVE reqid p \<Rightarrow> (fst sw, on_REMOVE srv u reqid p (snd sw))
      | MKDIR reqid p \<Rightarrow> (fst sw, on_MKDIR u reqid p (snd sw))
      | RMDIR reqid p \<Rightarrow> (fst sw, on_RMDIR u reqid p (snd sw))
      | RENAME reqid p q \<Rightarrow> (fst sw, on_RENAME srv u reqid p q (snd sw))
      | STAT reqid p \<Rightarrow> (fst sw, on_STAT srv now u reqid p (snd sw))
      | LSTAT reqid p \<Rightarrow> (fst sw, on_LSTAT srv now u reqid p (snd sw))
      | REALPATH reqid p \<Rightarrow> (fst sw, resolvePath srv reqid p u (snd sw)))"

fun run :: "server \<Rightarrow> nat \<Rightarrow> nat \<Rightarrow> user \<Rightarrow> request list \<Rightarrow> session \<times> world \<Rightarrow> session \<times> world" where
  "run srv now ticks u [] sw = sw"
| "run srv now ticks u (req # reqs) sw = run srv now ticks u reqs (handle_request srv now ticks u req sw)"

text \<open>A fresh session and world, and the user object made at authentication.\<close>

definition new_session :: session where
  "new_session = \<lparr>openFiles = Map.empty, openDirs = Map.empty, handleCount = 0\<rparr>"

definition new_world :: world where
  "new_world = \<lparr>calls = [], events = [], responses = [], lastUploadTime = 0\<rparr>"

definition authenticatedUser :: "server \<Rightarrow> string \<Rightarrow> user" where
  "authenticatedUser srv usern = \<lparr>username = usern, path = userBasePath srv @ ''/'' @ usern\<rparr>"

subsection \<open>The default configuration and an in-memory store\<close>

text \<open>The configuration the server runs with when the environment sets nothing, and a
  store that keeps its objects in a list: it answers each call from the objects it started
  with and the calls made before. Like the real store it leaves \<open>Contents\<close> out of an empty
  listing. It serves the concrete runs below.\<close>

definition default_server :: "store \<Rightarrow> server" where
  "default_server st =
     \<lparr>accessControl = isPathAllowed, s3Client = st, userBasePath = ''users'',
      defaultSubdirectories = [''invoices'', ''ledgers''], createDefaultSubdirs = True\<rparr>"

type_synonym bucket = "(string \<times> byte list) list"

definition put_object :: "string \<Rightarrow> byte list \<Rightarrow> bucket \<Rightarrow> bucket" where
  "put_object k body b = filter (\<lambda>kv. if fst kv = k then False else True) b @ [(k, body)]"

definition apply_call :: "bucket \<Rightarrow> store_call \<Rightarrow> bucket" where
  "apply_call b c =
     (case c of
        PutObject k body len ctype \<Rightarrow> put_object k body b
      | DeleteObject k \<Rightarrow> filter (\<lambda>kv. if fst kv = k then False else True) b
      | CopyObject new old \<Rightarrow> (case map_of b old of None \<Rightarrow> b | Some body \<Rightarrow> put_object new body b)
      | _ \<Rightarrow> b)"

definition memory_store :: "bucket \<Rightarrow> store" where
  "memory_store init hist c =
     (let b = foldl apply_call init hist
      in (case c of
            ListObjectsV2 prefix \<Rightarrow>
              (let found = map (\<lambda>kv. \<lparr>Key = fst kv, Size = length (snd kv), LastModified = 0, IsDir = False\<rparr>)
                             (filter (\<lambda>kv. startsWith (fst kv) prefix) b)
               in Listed (if found = [] then None else Some found))
          | GetObject k first lst \<Rightarrow>
              (case map_of b k of
                 None \<Rightarrow> Failed ''NoSuchKey''
               | Some body \<Rightarrow> Got (Some [take (lst + 1 - first) (drop first body)]))
          | HeadObject k \<Rightarrow> (case map_of b k of None \<Rightarrow> Failed ''NotFound'' | Some body \<Rightarrow> Done)
          | CopyObject new old \<Rightarrow> (case map_of b old of None \<Rightarrow> Failed ''NoSuchKey'' | Some body \<Rightarrow> Done)
          | _ \<Rightarrow> Done))"

definition alice :: user where
  "alice = authenticatedUser (default_server (memory_store [])) ''alice''"

text \<open>A run of WRITE requests on one handle, each given by its request id, offset and
  payload.\<close>

definition write_req :: "byte list \<Rightarrow> nat \<times> nat \<times> byte list \<Rightarrow> request" where
  "write_req h x = WRITE (fst x) h (fst (snd x)) (snd (snd x))"

definition payload :: "nat \<times> nat \<times> byte list \<Rightarrow> byte list" where
  "payload x = snd (snd x)"

definition read_req :: "byte list \<Rightarrow> nat \<times> nat \<times> nat \<Rightarrow> request" where
  "read_req h x = READ (fst x) h (fst (snd x)) (snd (snd x))"

subsection \<open>Concrete runs\<close>

text \<open>The session of \<open>alice\<close> after one OPEN, on an empty store (for writing) and on
  a store that holds a file of three bytes (for reading); a store whose downloads fail;
  and two stores with directory markers.\<close>

definition opened_for_write :: "session \<times> world" where
  "opened_for_write =
     handle_request (default_server (memory_store [])) 5 1 alice
       (OPEN 1 ''/ledgers/jan.pdf'' MODE_WRITE) (new_session, new_world)"

definition bucket_file :: bucket where
  "bucket_file = [(''users/alice/a.txt'', [1, 2, 3])]"

definition opened_for_read :: "session \<times> world" where
  "opened_for_read =
     handle_request (default_server (memory_store bucket_file)) 5 1 alice
       (OPEN 1 ''/a.txt'' MODE_READ) (new_session, new_world)"

definition failing_get_store :: "bucket \<Rightarrow> store" where
  "failing_get_store b hist c =
     (case c of GetObject k first lst \<Rightarrow> Failed ''ServiceUnavailable'' | _ \<Rightarrow> memory_store b hist c)"

definition opened_for_read_failing :: "session \<times> world" where
  "opened_for_read_failing =
     handle_request (default_server (failing_get_store bucket_file)) 5 1 alice
       (OPEN 1 ''/a.txt'' MODE_READ) (new_session, new_world)"

definition bucket_home :: bucket where
  "bucket_home =
     [(''users/alice/invoices/.directory'', string_bytes ''Directory marker for invoices folder''),
      (''users/alice/ledgers/.directory'', string_bytes ''Directory marker for ledgers folder'')]"

definition bucket_docs :: bucket where
  "bucket_docs = [(''users/alice/docs/d'', [1, 2]), (''users/alice/docs/d/.directory'', [])]"

section \<open>Properties\<close>

text \<open>C4. Every MKDIR and every RMDIR, from any user and on any path, is answered
  PERMISSION_DENIED and emits the blocked event of its kind; it makes no call to the store
  (the trace of calls is what it was before the request) and leaves the session's handle
  tables as they were.\<close>

theorem C4_mkdir_rmdir_always_denied:
  "handle_request srv now ticks u (MKDIR reqid p) (s, w) =
     (s, w\<lparr>responses := responses w @ [Status reqid PERMISSION_DENIED],
           events := events w @ [directory_creation_blocked (username u) p]\<rparr>)
   \<and> calls (snd (handle_request srv now ticks u (MKDIR reqid p) (s, w))) = calls w
   \<and> handle_request srv now ticks u (RMDIR reqid p) (s, w) =
     (s, w\<lparr>responses := responses w @ [Status reqid PERMISSION_DENIED],
           events := events w @ [directory_deletion_blocked (username u) p]\<rparr>)
   \<and> calls (snd (handle_request srv now ticks u (RMDIR reqid p) (s, w))) = calls w"
  by (simp add: handle_request_def on_MKDIR_def on_RMDIR_def emit_def respond_def)

subsection \<open>Upload: a run of writes followed by a close\<close>

text \<open>The state that an OPEN for writing puts into the handle table.\<close>

lemma handleFileOpenWrite_state:
  "openFiles (fst (handleFileOpenWrite reqid fname fullnm flgs handleId sw)) handleId =
     Some \<lparr>flags = flgs, filename_f = fname, fullname = fullnm, size_f = None,
           stream = Some [], ended = False, uploadComplete = False, uploadError = None,
           read = False\<rparr>"
  by (simp add: handleFileOpenWrite_def)

lemma run_append: "run srv now ticks u (xs @ ys) sw = run srv now ticks u ys (run srv now ticks u xs sw)"
  by (induction xs arbitrary: sw) simp_all

lemma on_WRITE_appends:
  assumes "length h = 4" and "openFiles s (readUInt32BE h) = Some state"
    and "has_flag (flags state) MODE_WRITE" and "stream state = Some chunks" and "\<not> ended state"
  shows "on_WRITE reqid h offset d (s, w) =
           (s\<lparr>openFiles := (openFiles s)(readUInt32BE h \<mapsto> state\<lparr>stream := Some (chunks @ [d])\<rparr>)\<rparr>,
            respond (Status reqid OK) w)"
  using assms by (simp add: on_WRITE_def)

lemma run_writes:
  assumes "length h = 4" and "openFiles s (readUInt32BE h) = Some state"
    and "has_flag (flags state) MODE_WRITE" and "stream state = Some chunks" and "\<not> ended state"
  shows "run srv now ticks u (map (write_req h) ws) (s, w) =
           (s\<lparr>openFiles := (openFiles s)(readUInt32BE h \<mapsto>
                 state\<lparr>stream := Some (chunks @ map payload ws)\<rparr>)\<rparr>,
            w\<lparr>responses := responses w @ map (\<lambda>x. Status (fst x) OK) ws\<rparr>)"
  using assms
proof (induction ws arbitrary: s w state chunks)
  case Nil
  then have "state\<lparr>stream := Some chunks\<rparr> = state" by simp
  with Nil show ?case by (simp add: map_upd_triv)
next
  case (Cons x ws)
  let ?state' = "state\<lparr>stream := Some (chunks @ [payload x])\<rparr>"
  let ?s' = "s\<lparr>openFiles := (openFiles s)(readUInt32BE h \<mapsto> ?state')\<rparr>"
  let ?w' = "respond (Status (fst x) OK) w"
  have step: "handle_request srv now ticks u (write_req h x) (s, w) = (?s', ?w')"
    using Cons.prems by (simp add: handle_request_def write_req_def payload_def on_WRITE_appends)
  have "run srv now ticks u (map (write_req h) ws) (?s', ?w') =
          (?s'\<lparr>openFiles := (openFiles ?s')(readUInt32BE h \<mapsto>
                 ?state'\<lparr>stream := Some ((chunks @ [payload x]) @ map payload ws)\<rparr>)\<rparr>,
           ?w'\<lparr>responses := responses ?w' @ map (\<lambda>x. Status (fst x) OK) ws\<rparr>)"
    using Cons.prems by (intro Cons.IH) simp_all
  then have "run srv now ticks u (map (write_req h) (x # ws)) (s, w) =
          (?s'\<lparr>openFiles := (openFiles ?s')(readUInt32BE h \<mapsto>
                 ?state'\<lparr>stream := Some ((chunks @ [payload x]) @ map payload ws)\<rparr>)\<rparr>,
           ?w'\<lparr>responses := responses ?w' @ map (\<lambda>x. Status (fst x) OK) ws\<rparr>)"
    by (simp only: list.map run.simps step)
  also have "\<dots> = (s\<lparr>openFiles := (openFiles s)(readUInt32BE h \<mapsto>
                 state\<lparr>stream := Some (chunks @ map payload (x # ws))\<rparr>)\<rparr>,
            w\<lparr>responses := responses w @ map (\<lambda>x. Status (fst x) OK) (x # ws)\<rparr>)"
    by (simp add: respond_def)
  finally show ?case .
qed

lemma close_write_handle:
  assumes "length h = 4" and "openFiles s (readUInt32BE h) = Some state"
    and "has_flag (flags state) MODE_WRITE" and "stream state = Some chunks" and "\<not> ended state"
    and "\<not> uploadComplete state" and "uploadError state = None"
  shows "on_CLOSE srv now (Suc ticks) u reqid h (s, w) =
     (s\<lparr>openFiles := (openFiles s)(readUInt32BE h := None)\<rparr>,
      if concat chunks = [] then
        w\<lparr>events := events w @ [upload_error (fullname state) ''Empty files are not allowed'' (username u)],
          responses := responses w @ [Status reqid FAILURE]\<rparr>
      else if non_pdf_in_protected (fullname state) then
        w\<lparr>events := events w @ [upload_error (fullname state)
               ''Only PDF files are allowed in ledgers and invoices directories'' (username u)],
          responses := responses w @ [Status reqid FAILURE]\<rparr>
      else (case s3Client srv (calls w)
                   (PutObject (fullname state) (concat chunks) (Some (length (concat chunks))) None) of
              Failed e \<Rightarrow>
                w\<lparr>calls := calls w @ [PutObject (fullname state) (concat chunks) (Some (length (concat chunks))) None],
                  events := events w @ [upload_error (fullname state) e (username u)],
                  responses := responses w @ [Status reqid FAILURE]\<rparr>
            | _ \<Rightarrow>
                w\<lparr>calls := calls w @ [PutObject (fullname state) (concat chunks) (Some (length (concat chunks))) None],
                  events := events w @ [file_uploaded (fullname state) (username u),
                                        directory_changed (fullname state) (username u) ''upload''],
                  responses := responses w @ [Status reqid OK],
                  lastUploadTime := now\<rparr>))"
  using assms
  by (simp add: on_CLOSE_def closeFile_def uploadToS3_def set_uploadError_def s3_send_def
        emit_def respond_def Let_def split: store_reply.splits)

lemma writes_then_close:
  assumes h4: "length h = 4" and st: "openFiles s (readUInt32BE h) = Some state"
    and fl: "has_flag (flags state) MODE_WRITE" and str: "stream state = Some []"
    and ne: "\<not> ended state" and nc: "\<not> uploadComplete state" and nerr: "uploadError state = None"
  shows "run srv now (Suc ticks) u (map (write_req h) ws @ [CLOSE reqid h]) (s, w) =
     on_CLOSE srv now (Suc ticks) u reqid h
       (s\<lparr>openFiles := (openFiles s)(readUInt32BE h \<mapsto> state\<lparr>stream := Some (map payload ws)\<rparr>)\<rparr>,
        w\<lparr>responses := responses w @ map (\<lambda>x. Status (fst x) OK) ws\<rparr>)"
  using run_writes [OF h4 st fl str ne, of srv now "Suc ticks" u ws w]
  by (simp add: run_append handle_request_def)

text \<open>C5. A file-write handle that is closed after WRITE requests carrying no byte at all
  (none, or only empty payloads): no call reaches the store, so no PUT is issued; an
  \<open>upload-error\<close> event is emitted whose message is the server's text for an empty
  file, \<open>Empty files are not allowed\<close>; the CLOSE is answered FAILURE, at the first
  tick of the poll; the handle is released.\<close>

theorem C5_empty_upload_rejected:
  assumes h4: "length h = 4" and st: "openFiles s (readUInt32BE h) = Some state"
    and fl: "has_flag (flags state) MODE_WRITE" and str: "stream state = Some []"
    and ne: "\<not> ended state" and nc: "\<not> uploadComplete state" and nerr: "uploadError state = None"
    and empty: "concat (map payload ws) = []"
  shows "calls (snd (run srv now (Suc ticks) u (map (write_req h) ws @ [CLOSE reqid h]) (s, w))) = calls w
    \<and> events (snd (run srv now (Suc ticks) u (map (write_req h) ws @ [CLOSE reqid h]) (s, w))) =
        events w @ [upload_error (fullname state) ''Empty files are not allowed'' (username u)]
    \<and> responses (snd (run srv now (Suc ticks) u (map (write_req h) ws @ [CLOSE reqid h]) (s, w))) =
        responses w @ map (\<lambda>x. Status (fst x) OK) ws @ [Status reqid FAILURE]
    \<and> openFiles (fst (run srv now (Suc ticks) u (map (write_req h) ws @ [CLOSE reqid h]) (s, w)))
        (readUInt32BE h) = None"
proof -
  let ?state = "state\<lparr>stream := Some (map payload ws)\<rparr>"
  let ?s = "s\<lparr>openFiles := (openFiles s)(readUInt32BE h \<mapsto> ?state)\<rparr>"
  let ?w = "w\<lparr>responses := responses w @ map (\<lambda>x. Status (fst x) OK) ws\<rparr>"
  have a: "openFiles ?s (readUInt32BE h) = Some ?state" by simp
  have r: "run srv now (Suc ticks) u (map (write_req h) ws @ [CLOSE reqid h]) (s, w) =
             on_CLOSE srv now (Suc ticks) u reqid h (?s, ?w)"
    by (rule writes_then_close [OF h4 st fl str ne nc nerr])
  have c: "on_CLOSE srv now (Suc ticks) u reqid h (?s, ?w) =
     (?s\<lparr>openFiles := (openFiles ?s)(readUInt32BE h := None)\<rparr>,
      ?w\<lparr>events := events ?w @ [upload_error (fullname ?state) ''Empty files are not allowed'' (username u)],
          responses := responses ?w @ [Status reqid FAILURE]\<rparr>)"
    using close_write_handle [OF h4 a, of "map payload ws" srv now ticks u reqid ?w] fl ne nc nerr empty
    by simp
  show ?thesis unfolding r c by simp
qed

text \<open>C6. A file-write handle that receives WRITE requests with payloads \<open>W1 \<dots> Wn\<close>,
  at any offsets, and is then closed: the calls made to the store are at most one PUT,
  whose body is the concatenation of the payloads in the order of receipt and whose
  \<open>ContentLength\<close> is the length of that body. (No PUT is made for an empty body or for
  a key under a ledgers or invoices folder that does not end in \<open>.pdf\<close>.)\<close>

theorem C6_put_body_is_concatenation:
  assumes h4: "length h = 4" and st: "openFiles s (readUInt32BE h) = Some state"
    and fl: "has_flag (flags state) MODE_WRITE" and str: "stream state = Some []"
    and ne: "\<not> ended state" and nc: "\<not> uploadComplete state" and nerr: "uploadError state = None"
  shows "calls (snd (run srv now (Suc ticks) u (map (write_req h) ws @ [CLOSE reqid h]) (s, w))) =
     calls w @
       (if concat (map payload ws) = [] then []
        else if non_pdf_in_protected (fullname state) then []
        else [PutObject (fullname state) (concat (map payload ws))
                (Some (length (concat (map payload ws)))) None])"
proof -
  let ?state = "state\<lparr>stream := Some (map payload ws)\<rparr>"
  let ?s = "s\<lparr>openFiles := (openFiles s)(readUInt32BE h \<mapsto> ?state)\<rparr>"
  let ?w = "w\<lparr>responses := responses w @ map (\<lambda>x. Status (fst x) OK) ws\<rparr>"
  have a: "openFiles ?s (readUInt32BE h) = Some ?state" by simp
  have r: "run srv now (Suc ticks) u (map (write_req h) ws @ [CLOSE reqid h]) (s, w) =
             on_CLOSE srv now (Suc ticks) u reqid h (?s, ?w)"
    by (rule writes_then_close [OF h4 st fl str ne nc nerr])
  show ?thesis
    unfolding r
    using close_write_handle [OF h4 a, of "map payload ws" srv now ticks u reqid ?w] fl ne nc nerr
    by (simp split: store_reply.splits)
qed

subsection \<open>Download: reads on a file-read handle\<close>

lemma read_at_eof:
  assumes "length h = 4" and "openFiles s (readUInt32BE h) = Some state"
    and "has_flag (flags state) MODE_READ" and "read state"
  shows "on_READ srv reqid h offset len (s, w) = (s, respond (Status reqid EOF) w)"
  using assms by (simp add: on_READ_def)

lemma reads_at_eof:
  assumes "length h = 4" and "openFiles s (readUInt32BE h) = Some state"
    and "has_flag (flags state) MODE_READ" and "read state"
  shows "run srv now ticks u (map (read_req h) reads) (s, w) =
           (s, w\<lparr>responses := responses w @ map (\<lambda>x. Status (fst x) EOF) reads\<rparr>)"
  using assms
proof (induction reads arbitrary: w)
  case Nil
  show ?case by simp
next
  case (Cons x reads)
  have "handle_request srv now ticks u (read_req h x) (s, w) = (s, respond (Status (fst x) EOF) w)"
    using Cons.prems by (simp add: handle_request_def read_req_def read_at_eof)
  then show ?case
    using Cons.IH [OF Cons.prems, of "respond (Status (fst x) EOF) w"]
    by (simp add: respond_def)
qed

lemma read_in_range:
  assumes "length h = 4" and "openFiles s (readUInt32BE h) = Some state"
    and "has_flag (flags state) MODE_READ" and "\<not> read state"
    and "size_f state = Some sz" and "offset < sz" and "0 < len"
  shows "on_READ srv reqid h offset len (s, w) =
           (s\<lparr>openFiles := (openFiles s)(readUInt32BE h \<mapsto> state\<lparr>read := (sz \<le> offset + len)\<rparr>)\<rparr>,
            readFileFromS3 srv reqid (fullname state) offset (min len (sz - offset)) w)"
proof -
  have eq: "state\<lparr>read := False\<rparr> = state" using assms(4) by simp
  show ?thesis
  proof (cases "sz < offset + len")
    case True
    then have m: "min len (sz - offset) = sz - offset" by simp
    from True assms show ?thesis
      by (simp add: on_READ_def Let_def m)
  next
    case False
    then have m: "min len (sz - offset) = len" by simp
    from False assms show ?thesis
      by (cases "sz \<le> offset + len") (simp_all add: on_READ_def Let_def m eq)
  qed
qed

lemma readFileFromS3_calls:
  "calls (readFileFromS3 srv reqid fullnm offset len w) = calls w @ [GetObject fullnm offset (offset + len - 1)]"
  by (simp add: readFileFromS3_def s3_send_def respond_def split: store_reply.splits option.splits)

lemma readFileFromS3_failed:
  "s3Client srv (calls w) (GetObject fullnm offset (offset + len - 1)) = Failed e \<Longrightarrow>
   readFileFromS3 srv reqid fullnm offset len w =
     w\<lparr>calls := calls w @ [GetObject fullnm offset (offset + len - 1)],
       responses := responses w @ [Status reqid FAILURE]\<rparr>"
  by (simp add: readFileFromS3_def s3_send_def respond_def)

text \<open>C8, as amended. A READ on a file-read handle of recorded size \<open>sz\<close>. If the
  handle's EOF flag is set, the answer is EOF. If it is not set: an offset of at least
  \<open>sz\<close> is answered EOF; so is a request for zero bytes; otherwise the length is clamped
  to \<open>sz - offset\<close>, one ranged GET for exactly those bytes is issued, and the flag is
  set exactly when the clamped range reaches \<open>sz\<close>. An EOF answer makes no call to the
  store.\<close>

theorem C8_read_by_cases:
  assumes h4: "length h = 4" and st: "openFiles s (readUInt32BE h) = Some state"
    and fl: "has_flag (flags state) MODE_READ" and sz: "size_f state = Some sz"
  shows "(read state \<longrightarrow> on_READ srv reqid h offset len (s, w) = (s, respond (Status reqid EOF) w))
    \<and> (\<not> read state \<and> sz \<le> offset \<longrightarrow>
          on_READ srv reqid h offset len (s, w) = (s, respond (Status reqid EOF) w))
    \<and> (\<not> read state \<and> offset < sz \<and> len = 0 \<longrightarrow>
          on_READ srv reqid h offset len (s, w) = (s, respond (Status reqid EOF) w))
    \<and> (\<not> read state \<and> offset < sz \<and> 0 < len \<longrightarrow>
          on_READ srv reqid h offset len (s, w) =
            (s\<lparr>openFiles := (openFiles s)(readUInt32BE h \<mapsto> state\<lparr>read := (sz \<le> offset + len)\<rparr>)\<rparr>,
             readFileFromS3 srv reqid (fullname state) offset (min len (sz - offset)) w)
          \<and> calls (readFileFromS3 srv reqid (fullname state) offset (min len (sz - offset)) w) =
              calls w @ [GetObject (fullname state) offset (offset + min len (sz - offset) - 1)])
    \<and> calls (respond (Status reqid EOF) w) = calls w"
proof (intro conjI impI)
  assume "read state"
  then show "on_READ srv reqid h offset len (s, w) = (s, respond (Status reqid EOF) w)"
    by (rule read_at_eof [OF h4 st fl])
next
  assume "\<not> read state \<and> sz \<le> offset"
  then show "on_READ srv reqid h offset len (s, w) = (s, respond (Status reqid EOF) w)"
    using h4 st fl sz by (simp add: on_READ_def)
next
  assume "\<not> read state \<and> offset < sz \<and> len = 0"
  then show "on_READ srv reqid h offset len (s, w) = (s, respond (Status reqid EOF) w)"
    using h4 st fl sz by (simp add: on_READ_def)
next
  assume a: "\<not> read state \<and> offset < sz \<and> 0 < len"
  then show "on_READ srv reqid h offset len (s, w) =
            (s\<lparr>openFiles := (openFiles s)(readUInt32BE h \<mapsto> state\<lparr>read := (sz \<le> offset + len)\<rparr>)\<rparr>,
             readFileFromS3 srv reqid (fullname state) offset (min len (sz - offset)) w)"
    using read_in_range [OF h4 st fl _ sz] by simp
next
  show "calls (readFileFromS3 srv reqid (fullname state) offset (min len (sz - offset)) w) =
              calls w @ [GetObject (fullname state) offset (offset + min len (sz - offset) - 1)]"
    by (rule readFileFromS3_calls)
next
  show "calls (respond (Status reqid EOF) w) = calls w" by (simp add: respond_def)
qed

text \<open>C10. The EOF flag is set before the last ranged GET is sent: when that GET fails
  at the store the READ is answered FAILURE, the flag stays set, and every later READ on
  the handle is answered EOF with no further call to the store.\<close>

theorem C10_eof_flag_survives_failed_get:
  assumes h4: "length h = 4" and st: "openFiles s (readUInt32BE h) = Some state"
    and fl: "has_flag (flags state) MODE_READ" and nr: "\<not> read state"
    and sz: "size_f state = Some sz" and off: "offset < sz" and len: "0 < len"
    and reach: "sz \<le> offset + len"
    and fail: "s3Client srv (calls w) (GetObject (fullname state) offset (sz - 1)) = Failed e"
  shows "on_READ srv reqid h offset len (s, w) =
           (s\<lparr>openFiles := (openFiles s)(readUInt32BE h \<mapsto> state\<lparr>read := True\<rparr>)\<rparr>,
            w\<lparr>calls := calls w @ [GetObject (fullname state) offset (sz - 1)],
              responses := responses w @ [Status reqid FAILURE]\<rparr>)
    \<and> (\<forall>reads. run srv now ticks u (map (read_req h) reads) (on_READ srv reqid h offset len (s, w)) =
          (s\<lparr>openFiles := (openFiles s)(readUInt32BE h \<mapsto> state\<lparr>read := True\<rparr>)\<rparr>,
           w\<lparr>calls := calls w @ [GetObject (fullname state) offset (sz - 1)],
             responses := responses w @ [Status reqid FAILURE] @ map (\<lambda>x. Status (fst x) EOF) reads\<rparr>))"
proof -
  let ?s1 = "s\<lparr>openFiles := (openFiles s)(readUInt32BE h \<mapsto> state\<lparr>read := True\<rparr>)\<rparr>"
  let ?w1 = "w\<lparr>calls := calls w @ [GetObject (fullname state) offset (sz - 1)],
              responses := responses w @ [Status reqid FAILURE]\<rparr>"
  have last: "offset + min len (sz - offset) - 1 = sz - 1" using off reach by (auto simp add: min_def)
  have first: "on_READ srv reqid h offset len (s, w) = (?s1, ?w1)"
    using read_in_range [OF h4 st fl nr sz off len, of srv reqid w] reach
      readFileFromS3_failed [of srv w "fullname state" offset "min len (sz - offset)" e reqid] fail last
    by simp
  have a: "openFiles ?s1 (readUInt32BE h) = Some (state\<lparr>read := True\<rparr>)" by simp
  have later: "run srv now ticks u (map (read_req h) reads) (?s1, ?w1) =
          (?s1, ?w1\<lparr>responses := responses ?w1 @ map (\<lambda>x. Status (fst x) EOF) reads\<rparr>)" for reads
    using fl by (intro reads_at_eof [OF h4 a]) simp_all
  show ?thesis unfolding first using later by simp
qed

subsection \<open>Authentication\<close>

text \<open>C9. An authentication attempt whose user name or password is missing or empty
  fails and leaves the world as it was: no HEAD request is sent, so no probe key is built
  from such credentials.\<close>

theorem C9_missing_credentials_rejected:
  "falsy usern \<or> falsy password \<Longrightarrow> authenticateUser st usern password w = (False, w)"
  by (auto simp add: authenticateUser_def)

subsection \<open>The properties at concrete runs\<close>

text \<open>The state and the world after the OPEN of each concrete run.\<close>

lemma opened_for_write_state:
  "openFiles (fst opened_for_write) (readUInt32BE [0, 0, 0, 0]) =
     Some \<lparr>flags = MODE_WRITE, filename_f = ''/ledgers/jan.pdf'', fullname = ''users/alice/ledgers/jan.pdf'',
           size_f = None, stream = Some [], ended = False, uploadComplete = False,
           uploadError = None, read = False\<rparr>"
  by code_simp

lemma opened_for_write_world:
  "calls (snd opened_for_write) = [ListObjectsV2 ''users/alice/ledgers/jan.pdf'']"
  "events (snd opened_for_write) = []"
  "responses (snd opened_for_write) = [Handle 1 [0, 0, 0, 0]]"
  "lastUploadTime (snd opened_for_write) = 0"
  by code_simp+

lemma has_flag_same: "has_flag MODE_WRITE MODE_WRITE" "has_flag MODE_READ MODE_READ"
  by code_simp+

lemma username_alice: "username alice = ''alice''"
  by code_simp

text \<open>C5 at a run: \<open>alice\<close> opens \<open>/ledgers/jan.pdf\<close> for writing, sends one empty
  WRITE and closes.\<close>

theorem C5_empty_upload_rejected_witness:
  "calls (snd (run (default_server (memory_store [])) 5 (Suc 0) alice
          (map (write_req [0, 0, 0, 0]) [(2, 0, [])] @ [CLOSE 3 [0, 0, 0, 0]]) opened_for_write))
     = [ListObjectsV2 ''users/alice/ledgers/jan.pdf'']
   \<and> events (snd (run (default_server (memory_store [])) 5 (Suc 0) alice
          (map (write_req [0, 0, 0, 0]) [(2, 0, [])] @ [CLOSE 3 [0, 0, 0, 0]]) opened_for_write))
     = [upload_error ''users/alice/ledgers/jan.pdf'' ''Empty files are not allowed'' ''alice'']
   \<and> responses (snd (run (default_server (memory_store [])) 5 (Suc 0) alice
          (map (write_req [0, 0, 0, 0]) [(2, 0, [])] @ [CLOSE 3 [0, 0, 0, 0]]) opened_for_write))
     = [Handle 1 [0, 0, 0, 0], Status 2 OK, Status 3 FAILURE]"
  using C5_empty_upload_rejected [OF _ opened_for_write_state, of "[(2, 0, [])]"
      "default_server (memory_store [])" 5 0 alice 3 "snd opened_for_write"]
  by (simp add: opened_for_write_world username_alice has_flag_same payload_def)

text \<open>C6 at a run: two WRITEs, both at offset 0, then CLOSE; the body of the PUT is the
  two payloads in the order of receipt.\<close>

theorem C6_put_body_is_concatenation_witness:
  "calls (snd (run (default_server (memory_store [])) 5 (Suc 0) alice
          (map (write_req [0, 0, 0, 0]) [(2, 0, [37, 80]), (3, 0, [68, 70])] @ [CLOSE 4 [0, 0, 0, 0]])
          opened_for_write))
     = [ListObjectsV2 ''users/alice/ledgers/jan.pdf'',
        PutObject ''users/alice/ledgers/jan.pdf'' [37, 80, 68, 70] (Some 4) None]"
proof -
  have pdf: "non_pdf_in_protected ''users/alice/ledgers/jan.pdf'' = False" by code_simp
  show ?thesis
    using C6_put_body_is_concatenation [OF _ opened_for_write_state, of
        "default_server (memory_store [])" 5 0 alice "[(2, 0, [37, 80]), (3, 0, [68, 70])]" 4
        "snd opened_for_write"]
    by (simp add: opened_for_write_world has_flag_same payload_def pdf)
qed

lemma opened_for_read_state:
  "openFiles (fst opened_for_read) (readUInt32BE [0, 0, 0, 0]) =
     Some \<lparr>flags = MODE_READ, filename_f = ''/a.txt'', fullname = ''users/alice/a.txt'',
           size_f = Some 3, stream = None, ended = False, uploadComplete = False,
           uploadError = None, read = False\<rparr>"
  by code_simp

lemma opened_for_read_world:
  "calls (snd opened_for_read) = [ListObjectsV2 ''users/alice/a.txt'', ListObjectsV2 ''users/alice/a.txt'']"
  "events (snd opened_for_read) = []"
  "responses (snd opened_for_read) = [Handle 1 [0, 0, 0, 0]]"
  "lastUploadTime (snd opened_for_read) = 0"
  by code_simp+

text \<open>C8 as first stated fails: on a file-read handle of recorded size 3, with the EOF
  flag not set, a READ at offset 0 (less than 3) for zero bytes is answered EOF and no GET
  is issued.\<close>

theorem C8_zero_length_read_counterexample:
  "map_option size_f (openFiles (fst opened_for_read) (readUInt32BE [0, 0, 0, 0])) = Some (Some 3)
   \<and> map_option read (openFiles (fst opened_for_read) (readUInt32BE [0, 0, 0, 0])) = Some False
   \<and> (0::nat) < 3
   \<and> snd (on_READ (default_server (memory_store bucket_file)) 2 [0, 0, 0, 0] 0 0 opened_for_read) =
       \<lparr>calls = [ListObjectsV2 ''users/alice/a.txt'', ListObjectsV2 ''users/alice/a.txt''], events = [],
        responses = [Handle 1 [0, 0, 0, 0], Status 2 EOF], lastUploadTime = 0\<rparr>"
  by code_simp

text \<open>C8 as amended, at a run: a READ of 10 bytes at offset 1 of the 3-byte file asks the
  store for bytes 1 to 2 and sets the flag; a READ at offset 3 is answered EOF.\<close>

theorem C8_read_by_cases_witness:
  "calls (snd (on_READ (default_server (memory_store bucket_file)) 2 [0, 0, 0, 0] 1 10 opened_for_read)) =
     [ListObjectsV2 ''users/alice/a.txt'', ListObjectsV2 ''users/alice/a.txt'',
      GetObject ''users/alice/a.txt'' 1 2]
   \<and> map_option read (openFiles
        (fst (on_READ (default_server (memory_store bucket_file)) 2 [0, 0, 0, 0] 1 10 opened_for_read))
        (readUInt32BE [0, 0, 0, 0])) = Some True
   \<and> on_READ (default_server (memory_store bucket_file)) 3 [0, 0, 0, 0] 3 10 opened_for_read =
       (fst opened_for_read, respond (Status 3 EOF) (snd opened_for_read))"
  using C8_read_by_cases [OF _ opened_for_read_state, of 3 "default_server (memory_store bucket_file)" 2 1 10
      "snd opened_for_read"]
    C8_read_by_cases [OF _ opened_for_read_state, of 3 "default_server (memory_store bucket_file)" 3 3 10
      "snd opened_for_read"]
  by (simp add: opened_for_read_world has_flag_same)

lemma opened_for_read_failing_state:
  "openFiles (fst opened_for_read_failing) (readUInt32BE [0, 0, 0, 0]) =
     Some \<lparr>flags = MODE_READ, filename_f = ''/a.txt'', fullname = ''users/alice/a.txt'',
           size_f = Some 3, stream = None, ended = False, uploadComplete = False,
           uploadError = None, read = False\<rparr>"
  by code_simp

lemma opened_for_read_failing_world:
  "calls (snd opened_for_read_failing) = [ListObjectsV2 ''users/alice/a.txt'', ListObjectsV2 ''users/alice/a.txt'']"
  "events (snd opened_for_read_failing) = []"
  "responses (snd opened_for_read_failing) = [Handle 1 [0, 0, 0, 0]]"
  "lastUploadTime (snd opened_for_read_failing) = 0"
  by code_simp+

text \<open>C10 at a run on a store whose downloads fail: the READ that reaches the end is
  answered FAILURE, the two READs after it EOF, and only one GET is sent.\<close>

theorem C10_eof_flag_survives_failed_get_witness:
  "snd (run (default_server (failing_get_store bucket_file)) 5 1 alice
          (map (read_req [0, 0, 0, 0]) [(3, 0, 3), (4, 1, 1)])
          (on_READ (default_server (failing_get_store bucket_file)) 2 [0, 0, 0, 0] 0 3 opened_for_read_failing)) =
     \<lparr>calls = [ListObjectsV2 ''users/alice/a.txt'', ListObjectsV2 ''users/alice/a.txt'',
               GetObject ''users/alice/a.txt'' 0 2],
      events = [],
      responses = [Handle 1 [0, 0, 0, 0], Status 2 FAILURE, Status 3 EOF, Status 4 EOF],
      lastUploadTime = 0\<rparr>"
proof -
  let ?srv = "default_server (failing_get_store bucket_file)"
  let ?st = "\<lparr>flags = MODE_READ, filename_f = ''/a.txt'', fullname = ''users/alice/a.txt'',
           size_f = Some 3, stream = None, ended = False, uploadComplete = False,
           uploadError = None, read = False\<rparr>"
  have h4: "length [0, 0, 0, 0 :: byte] = 4" by simp
  have fl: "has_flag (flags ?st) MODE_READ" by (simp add: has_flag_same)
  have nr: "\<not> read ?st" by simp
  have sz: "size_f ?st = Some 3" by simp
  have fail: "s3Client ?srv (calls (snd opened_for_read_failing))
                (GetObject (fullname ?st) 0 (3 - 1)) = Failed ''ServiceUnavailable''"
    by code_simp
  have off: "(0::nat) < 3" and len: "(0::nat) < 3" and reach: "(3::nat) \<le> 0 + 3" by simp_all
  note inst = C10_eof_flag_survives_failed_get [OF h4 opened_for_read_failing_state fl nr sz off len reach fail,
      where reqid = 2 and now = 5 and ticks = 1 and u = alice]
  note later = inst [THEN conjunct2, THEN spec, of "[(3, 0, 3), (4, 1, 1)]", unfolded prod.collapse]
  show ?thesis
    unfolding later
    using opened_for_read_failing_world
    by (cases "snd opened_for_read_failing") simp
qed

text \<open>C9 at an empty user name and at a missing password.\<close>

theorem C9_missing_credentials_rejected_witness:
  "falsy (Some '''') \<and> falsy None
   \<and> authenticateUser (memory_store []) (Some '''') (Some ''secret'') new_world = (False, new_world)
   \<and> authenticateUser (memory_store []) (Some ''alice'') None new_world = (False, new_world)"
  using C9_missing_credentials_rejected [of "Some ''''" "Some ''secret''" "memory_store []" new_world]
    C9_missing_credentials_rejected [of "Some ''alice''" None "memory_store []" new_world]
  by (simp add: falsy_def)


subsection \<open>Protected paths\<close>

text \<open>What the guard of REMOVE and RENAME does block: the two aliases, the two paths
  under the literal folder \<open>/user\<close>, and every path that ends in a marker of a ledgers
  or invoices folder.\<close>

lemma protected_structure_blocked:
  assumes "protected_structure p"
  shows "on_REMOVE srv u reqid p w =
           w\<lparr>responses := responses w @ [Status reqid PERMISSION_DENIED],
             events := events w @ [protected_directory_deletion_blocked (username u) p]\<rparr>"
    and "on_RENAME srv u reqid p q w =
           w\<lparr>responses := responses w @ [Status reqid PERMISSION_DENIED],
             events := events w @ [protected_directory_rename_blocked (username u) p q]\<rparr>"
  using assms by (simp_all add: on_REMOVE_def on_RENAME_def emit_def respond_def)

lemma endsWith_append: "endsWith (d @ suf) suf"
  by (simp add: endsWith_def)

lemma protected_structure_holds:
  "protected_structure ''/ledgers''" "protected_structure ''/invoices''"
  "protected_structure ''/user/ledgers''" "protected_structure ''/user/invoices''"
  "protected_structure (d @ ''/ledgers/.directory'')"
  "protected_structure (d @ ''/invoices/.directory'')"
  by (simp_all add: protected_structure_def endsWith_append)

text \<open>What it does not block: the ledgers and invoices folders of any user whose name
  is not the literal \<open>user\<close>. The policy admits the path (it lies in the user's own
  folder), so the request reaches the store.\<close>

lemma endsWith_last: "endsWith p suf \<Longrightarrow> suf \<noteq> [] \<Longrightarrow> last p = last suf"
  by (auto simp add: endsWith_def split: if_splits) (metis last_drop length_greater_0_conv diff_less drop_eq_Nil2 not_le)

lemma own_folder_not_protected:
  assumes "usern \<noteq> ''user''"
  shows "\<not> protected_structure (''/'' @ usern @ ''/ledgers'')"
    and "\<not> protected_structure (''/'' @ usern @ ''/invoices'')"
proof -
  have l: "last (''/'' @ usern @ ''/ledgers'') = CHR ''s''" by simp
  have i: "last (''/'' @ usern @ ''/invoices'') = CHR ''s''" by simp
  have nl: "\<not> endsWith (''/'' @ usern @ ''/ledgers'') (x @ ''.directory'')" for x
    using endsWith_last [of "''/'' @ usern @ ''/ledgers''" "x @ ''.directory''"] l by auto
  have ni: "\<not> endsWith (''/'' @ usern @ ''/invoices'') (x @ ''.directory'')" for x
    using endsWith_last [of "''/'' @ usern @ ''/invoices''" "x @ ''.directory''"] i by auto
  show "\<not> protected_structure (''/'' @ usern @ ''/ledgers'')"
    using assms nl [of "''/ledgers/''"] nl [of "''/invoices/''"] nl [of "''/user/ledgers/''"]
      nl [of "''/user/invoices/''"]
    by (auto simp add: protected_structure_def)
  show "\<not> protected_structure (''/'' @ usern @ ''/invoices'')"
    using assms ni [of "''/ledgers/''"] ni [of "''/invoices/''"] ni [of "''/user/ledgers/''"]
      ni [of "''/user/invoices/''"]
    by (auto simp add: protected_structure_def)
qed

lemma own_folder_allowed:
  "isPathAllowed usern (''/'' @ usern @ ''/'' @ rest)"
  "isPathAllowed_config usern (''/'' @ usern @ ''/'' @ rest)"
  by (simp_all add: isPathAllowed_def isPathAllowed_config_def startsWith_def Let_def)

lemma deleteFileFromS3_calls:
  "calls (deleteFileFromS3 srv reqid k u w) = calls w @ [DeleteObject k]"
  by (simp add: deleteFileFromS3_def s3_send_def respond_def emit_def split: store_reply.splits)

lemma own_ledgers_remove_reaches_store:
  assumes "usern \<noteq> ''user''"
  shows "calls (on_REMOVE (default_server st) (authenticatedUser (default_server st) usern) reqid
                  (''/'' @ usern @ ''/ledgers'') w) =
           calls w @ [DeleteObject (mapKey (''users/'' @ usern) (''/'' @ usern @ ''/ledgers''))]"
  using own_folder_not_protected(1) [OF assms] own_folder_allowed(1) [of usern "''ledgers''"]
  by (simp add: on_REMOVE_def default_server_def authenticatedUser_def deleteFileFromS3_calls)

text \<open>C1. The claim asks that REMOVE and RENAME of \<open>/<U>/ledgers\<close> and \<open>/<U>/invoices\<close> be
  answered PERMISSION_DENIED with a blocked event and no call to the store, for the user
  \<open>U\<close> of the session. For \<open>alice\<close> the code does otherwise: REMOVE of
  \<open>/alice/ledgers\<close> sends a DELETE and is answered OK, RENAME of \<open>/alice/invoices\<close>
  sends a COPY (which this store fails, the key being absent); neither emits a blocked
  event.\<close>

theorem C1_own_ledgers_folder_not_guarded:
  "on_REMOVE (default_server (memory_store bucket_home)) alice 7 ''/alice/ledgers'' new_world =
     \<lparr>calls = [DeleteObject ''users/alice/alice/ledgers''],
      events = [file_deleted ''users/alice/alice/ledgers'' ''alice''],
      responses = [Status 7 OK], lastUploadTime = 0\<rparr>
   \<and> on_RENAME (default_server (memory_store bucket_home)) alice 8 ''/alice/invoices'' ''/alice/old'' new_world =
     \<lparr>calls = [CopyObject ''users/alice/alice/old'' ''users/alice/alice/invoices''],
      events = [],
      responses = [Status 8 FAILURE], lastUploadTime = 0\<rparr>"
  by code_simp

subsection \<open>The access policy on the verbs that take a path\<close>

text \<open>A path the policy denies is refused before any call to the store by OPENDIR,
  STAT, LSTAT and REMOVE, and by OPEN when the name has no trailing separator to strip.
  RENAME consults the policy for neither of its paths.\<close>

lemma denied_paths_rejected:
  assumes "\<not> accessControl srv (username u) p"
  shows "handle_request srv now ticks u (OPENDIR reqid p) (s, w) = (s, respond (Status reqid PERMISSION_DENIED) w)"
    and "handle_request srv now ticks u (STAT reqid p) (s, w) = (s, respond (Status reqid PERMISSION_DENIED) w)"
    and "handle_request srv now ticks u (LSTAT reqid p) (s, w) = (s, respond (Status reqid PERMISSION_DENIED) w)"
    and "calls (snd (handle_request srv now ticks u (REMOVE reqid p) (s, w))) = calls w"
    and "responses (snd (handle_request srv now ticks u (REMOVE reqid p) (s, w))) =
           responses w @ [Status reqid PERMISSION_DENIED]"
  using assms
  by (simp_all add: handle_request_def on_OPENDIR_def on_STAT_def on_LSTAT_def on_REMOVE_def
      respond_def emit_def)

lemma denied_open_rejected:
  assumes "\<not> accessControl srv (username u) p" and "\<not> endsWith p ''/''" and "\<not> endsWith p [backslash]"
  shows "handle_request srv now ticks u (OPEN reqid p flgs) (s, w) = (s, respond (Status reqid PERMISSION_DENIED) w)"
  using assms by (simp add: handle_request_def on_OPEN_def Let_def)

lemma rename_reaches_store:
  assumes "\<not> protected_structure p"
  shows "\<exists>rest. calls (on_RENAME srv u reqid p q w) =
           calls w @ CopyObject (mapKey (path u) q) (mapKey (path u) p) # rest"
  using assms
  by (simp add: on_RENAME_def renameInS3_def s3_send_def respond_def emit_def Let_def
      split: store_reply.splits)

text \<open>C2. The claim asks that every verb on a path the policy denies be answered
  PERMISSION_DENIED without a call to the store, RENAME included. For \<open>alice\<close> both
  versions of the policy deny \<open>/bob/secret.txt\<close>, and the path is not a protected one;
  RENAME of it sends COPY and DELETE to the store and is answered OK.\<close>

theorem C2_rename_skips_access_check:
  "isPathAllowed ''alice'' ''/bob/secret.txt'' = False
   \<and> isPathAllowed_config ''alice'' ''/bob/secret.txt'' = False
   \<and> protected_structure ''/bob/secret.txt'' = False
   \<and> on_RENAME (default_server (memory_store [(''users/alice/bob/secret.txt'', [1])])) alice 7
         ''/bob/secret.txt'' ''/alice/x.txt'' new_world =
       \<lparr>calls = [CopyObject ''users/alice/alice/x.txt'' ''users/alice/bob/secret.txt'',
                 DeleteObject ''users/alice/bob/secret.txt''],
        events = [file_renamed ''users/alice/alice/x.txt'' ''users/alice/bob/secret.txt'' ''alice''],
        responses = [Status 7 OK], lastUploadTime = 0\<rparr>"
  by code_simp

subsection \<open>Directory listings\<close>

text \<open>A key made by \<open>_mapKey\<close> is never the empty string, and an open-directory state
  holds the key it was opened with; for such a state READDIR answers the processed
  listing. The names of the entries it answers are distinct.\<close>

lemma mapKey_nonempty: "mapKey userPath p \<noteq> []"
  by (simp add: mapKey_def Let_def)

lemma openDirectory_fullname:
  assumes "openDirs (fst (openDirectory srv now reqid fullnm isRoot hid u (s, w))) hid = Some d"
    and "openDirs s hid = None"
  shows "dir_fullname d = fullnm"
  using assms
  by (auto simp add: openDirectory_def Let_def s3_send_def respond_def
      split: store_reply.splits option.splits if_splits prod.splits)

lemma listDirectoryContents_of_key:
  "dir_fullname state \<noteq> [] \<Longrightarrow>
   listDirectoryContents now reqid state w =
     respond (Name reqid (dedupe [] (map (entry_of (dir_fullname state)) (listings state)))) w"
  by (simp add: listDirectoryContents_def)

lemma dedupe_names: "set (map filename (dedupe seen es)) \<inter> set seen = {} \<and> distinct (map filename (dedupe seen es))"
proof (induction es arbitrary: seen)
  case Nil
  show ?case by simp
next
  case (Cons e es)
  show ?case
  proof (cases "List.member seen (filename e)")
    case True
    with Cons.IH [of seen] show ?thesis by simp
  next
    case False
    with Cons.IH [of "filename e # seen"] show ?thesis by auto
  qed
qed

text \<open>C3. The claim asks that OPENDIR of \<open>/\<close> followed by READDIR answer exactly the
  three entries \<open>alice\<close>, \<open>ledgers\<close>, \<open>invoices\<close>. The three synthetic entries are
  made only for a state whose key is the empty string, which no OPENDIR produces: for
  \<open>alice\<close>, whose home holds the two default markers, the answer is the two entries of
  the store's listing, \<open>invoices\<close> and \<open>ledgers\<close>.\<close>

theorem C3_root_listing_is_not_synthesised:
  "responses (snd (run (default_server (memory_store bucket_home)) 10000 1 alice
       [OPENDIR 1 ''/'', READDIR 2 [0, 0, 0, 0]] (new_session, new_world))) =
     [Handle 1 [0, 0, 0, 0],
      Name 2 [\<lparr>filename = ''invoices'',
                entry_attrs = \<lparr>mode = 493, uid = 0, gid = 0, size_a = 0, atime = 0, mtime = 0\<rparr>\<rparr>,
              \<lparr>filename = ''ledgers'',
                entry_attrs = \<lparr>mode = 493, uid = 0, gid = 0, size_a = 0, atime = 0, mtime = 0\<rparr>\<rparr>]]"
  by code_simp

text \<open>C7. The claim asks that a name classified both as a file and as a directory be
  shown as a directory. With the exact key \<open>users/alice/docs/d\<close> and the marker
  \<open>users/alice/docs/d/.directory\<close>, listed in the store's key order, the one entry
  \<open>d\<close> that READDIR answers is the file (mode \<open>0o644 = 420\<close>, size 2): the filter
  keeps a direct child as a file without looking for its marker, and the first entry of a
  name is the one that is kept.\<close>

theorem C7_file_wins_over_marker:
  "responses (snd (run (default_server (memory_store bucket_docs)) 10000 1 alice
       [OPENDIR 1 ''/docs'', READDIR 2 [0, 0, 0, 0]] (new_session, new_world))) =
     [Handle 1 [0, 0, 0, 0],
      Name 2 [\<lparr>filename = ''d'',
                entry_attrs = \<lparr>mode = 420, uid = 0, gid = 0, size_a = 2, atime = 0, mtime = 0\<rparr>\<rparr>]]"
  by code_simp


end
